theory Spec2Isabelle
  imports Main "HOL-Library.Sublist"
begin

section \<open>JavaScript values and errors\<close>

text \<open>
  The fields of a request body or of a WebSocket message are JSON values read out of an
  object: a field that is not there reads as \<open>undefined\<close>. \<open>JObj\<close> stands for any
  object, array or function (all of them truthy); its string only describes it.
\<close>

datatype jsval = JUndefined | JNull | JBool bool | JNum int | JStr string | JObj string

text \<open>The test \<^verbatim>\<open>if (v)\<close> / \<^verbatim>\<open>!v\<close> / \<^verbatim>\<open>v || d\<close> of JavaScript.\<close>

fun truthy :: "jsval \<Rightarrow> bool" where
  "truthy JUndefined = False"
| "truthy JNull = False"
| "truthy (JBool b) = b"
| "truthy (JNum n) = (n \<noteq> 0)"
| "truthy (JStr s) = (s \<noteq> [])"
| "truthy (JObj d) = True"

text \<open>An exception object: its \<open>name\<close> (\<open>Error\<close>, \<open>TypeError\<close>) and its \<open>message\<close>.\<close>

datatype js_error = JsError string string

fun emessage :: "js_error \<Rightarrow> string" where
  "emessage (JsError n m) = m"

text \<open>\<^verbatim>\<open>String(error)\<close>, that is \<open>Error.prototype.toString\<close>.\<close>

fun String_error :: "js_error \<Rightarrow> string" where
  "String_error (JsError n m) = (if m = [] then n else if n = [] then m else n @ '': '' @ m)"

definition Error :: "string \<Rightarrow> js_error" where
  "Error m = JsError ''Error'' m"

definition TypeError :: "string \<Rightarrow> js_error" where
  "TypeError m = JsError ''TypeError'' m"

text \<open>
  \<^verbatim>\<open>s.trim()\<close> strips the white space and line terminators of ECMAScript. A \<open>char\<close>
  is a code unit below 256, so of those only tab, LF, VT, FF, CR, space and the no-break
  space U+00A0 exist in a \<open>string\<close>; the others (U+FEFF, U+1680, U+2000 to U+200A,
  U+2028, U+2029, U+202F, U+205F, U+3000) lie outside the type.
\<close>

definition is_space :: "char \<Rightarrow> bool" where
  "is_space c =
     (c \<in> set [CHR 0x09, CHR 0x0A, CHR 0x0B, CHR 0x0C, CHR 0x0D, CHR 0x20, CHR 0xA0])"

definition trim :: "string \<Rightarrow> string" where
  "trim s = rev (dropWhile is_space (rev (dropWhile is_space s)))"

section \<open>The speech endpoint\<close>

text \<open>
  The handler of \<open>POST /api/generate-tts\<close> with its fallback, as in
  \<open>src/unnamed/part_000\<close>. The second variant in \<open>src/server.js\<close> has the same
  structure; it differs in the default voice, in the voice table (no \<open>Orion\<close>) and in
  the answer (no MIME type). The first variant, without fallback, follows further down.
\<close>

subsection \<open>createAiClient\<close>

text \<open>
  \<^verbatim>\<open>function createAiClient(apiKey) { if (!apiKey) throw new Error('Missing Gemini API key');
     return new GoogleGenAI({ apiKey }); }\<close>
  The client is opaque: the model returns the key it was built with.
\<close>

definition createAiClient :: "jsval \<Rightarrow> js_error + jsval" where
  "createAiClient apiKey =
     (if \<not> truthy apiKey then Inl (Error ''Missing Gemini API key'') else Inr apiKey)"

subsection \<open>The voice table of generateSystemTTS\<close>

definition voiceMap :: "(string \<times> string) list" where
  "voiceMap =
     [(''Aoede'', ''Samantha''),
      (''Charon'', ''Alex''),
      (''Fenrir'', ''Bruce''),
      (''Kore'', ''Karen''),
      (''Puck'', ''Daniel''),
      (''Orion'', ''Alex'')]"

text \<open>
  \<open>voiceMap\<close> is an object literal, so \<^verbatim>\<open>voiceMap[voice]\<close> looks \<open>voice\<close> up among its own
  properties and then along the prototype chain, in \<open>Object.prototype\<close>, whose members
  are functions (and, for \<open>__proto__\<close>, the prototype object itself).
\<close>

definition object_prototype_keys :: "string list" where
  "object_prototype_keys =
     [''constructor'', ''__proto__'', ''hasOwnProperty'', ''isPrototypeOf'',
      ''propertyIsEnumerable'', ''toLocaleString'', ''toString'', ''valueOf'',
      ''__defineGetter__'', ''__defineSetter__'', ''__lookupGetter__'', ''__lookupSetter__'']"

definition voiceMap_get :: "string \<Rightarrow> jsval" where
  "voiceMap_get voice =
     (case map_of voiceMap voice of
        Some v \<Rightarrow> JStr v
      | None \<Rightarrow> if voice \<in> set object_prototype_keys
                then JObj (''Object.prototype.'' @ voice) else JUndefined)"

text \<open>\<^verbatim>\<open>const systemVoice = voiceMap[voice] || 'Karen';\<close>\<close>

definition systemVoice :: "string \<Rightarrow> jsval" where
  "systemVoice voice = (let v = voiceMap_get voice in if truthy v then v else JStr ''Karen'')"

subsection \<open>The host: platform, primary provider, shell\<close>

text \<open>
  What the handler awaits from outside: \<^verbatim>\<open>ai.models.generateContent\<close> (called with a
  text, a voice name and the client) throws, or returns
  a response whose first inline part has \<open>data\<close> and \<open>mimeType\<close> (either may be
  missing); \<^verbatim>\<open>exec\<close> calls back with an error, or without one, and then the temporary
  file exists (with its content in base64) or not.
\<close>

datatype gemini_outcome = GeminiThrows js_error | GeminiResult "string option" "string option"

datatype command = Say jsval string | Festival string

datatype exec_outcome = ExecError js_error | ExecDone "string option"

record host =
  platform :: string
  generateContent :: "jsval \<Rightarrow> jsval \<Rightarrow> jsval \<Rightarrow> gemini_outcome"
  exec :: "command \<Rightarrow> exec_outcome"

text \<open>What a request does besides answering, in order.\<close>

datatype effect =
    ConsoleLog string
  | ConsoleError string
  | CallGenerateContent jsval jsval
  | CallExec command

subsection \<open>generateSystemTTS\<close>

definition generateSystemTTS :: "host \<Rightarrow> string \<Rightarrow> string \<Rightarrow> effect list \<times> (js_error + string)" where
  "generateSystemTTS h text voice =
     (let command = (if platform h = ''darwin'' then Say (systemVoice voice) text
                     else Festival text)
      in case exec h command of
           ExecError error \<Rightarrow>
             ([CallExec command, ConsoleError (''System TTS error: '' @ String_error error)],
              Inl error)
         | ExecDone tempFile \<Rightarrow>
             (case tempFile of
                Some audioBase64 \<Rightarrow>
                  if platform h = ''darwin'' then ([CallExec command], Inr audioBase64)
                  else ([CallExec command], Inl (Error ''TTS generation failed''))
              | None \<Rightarrow> ([CallExec command], Inl (Error ''TTS generation failed''))))"

subsection \<open>POST /api/generate-tts\<close>

record tts_request =
  tts_text :: jsval
  tts_voice :: jsval
  tts_apiKey :: jsval

datatype body = ErrorBody string "string option" | AudioBody string string | AudioOnly string

record response =
  status :: nat
  body :: body

text \<open>
  \<^verbatim>\<open>const voice = typeof voiceRaw === 'string' ? (voiceRaw.trim() || 'Puck') : 'Puck';\<close>
  with \<open>voiceRaw\<close> defaulting to \<open>'Puck'\<close> when the field is undefined.
\<close>

fun voice_of :: "jsval \<Rightarrow> string" where
  "voice_of (JStr voiceRaw) = (if trim voiceRaw = [] then ''Puck'' else trim voiceRaw)"
| "voice_of v = ''Puck''"

text \<open>
  \<^verbatim>\<open>text.substring(0, 50)\<close> is a method of strings only: on any other value the call
  throws this \<open>TypeError\<close>.
\<close>

fun substring_error :: "jsval \<Rightarrow> js_error" where
  "substring_error JUndefined =
     TypeError (''Cannot read properties of undefined (reading '' @ [CHR 0x27] @ ''substring''
                @ [CHR 0x27] @ '')'')"
| "substring_error JNull =
     TypeError (''Cannot read properties of null (reading '' @ [CHR 0x27] @ ''substring''
                @ [CHR 0x27] @ '')'')"
| "substring_error v = TypeError ''text.substring is not a function''"

text \<open>The inner \<^verbatim>\<open>try\<close> block: the primary provider.\<close>

definition primary_attempt ::
  "host \<Rightarrow> string \<Rightarrow> string \<Rightarrow> jsval \<Rightarrow> effect list \<times> (js_error + string \<times> string)" where
  "primary_attempt h str v key =
     (case createAiClient key of
        Inl e \<Rightarrow> ([], Inl e)
      | Inr ai \<Rightarrow>
          (let t = [ConsoleLog (''Using Gemini TTS with voice: '' @ v),
                    CallGenerateContent (JStr str) (JStr v)]
           in case generateContent h (JStr str) (JStr v) ai of
                GeminiThrows e \<Rightarrow> (t, Inl e)
              | GeminiResult d m \<Rightarrow>
                  (let audioBase64 = (case d of None \<Rightarrow> [] | Some x \<Rightarrow> x);
                       audioMimeType = (case m of None \<Rightarrow> [] | Some x \<Rightarrow> x)
                   in if audioBase64 = [] then (t, Inl (Error ''No audio data from Gemini''))
                      else (t @ [ConsoleLog ''Gemini TTS successful''],
                            Inr (audioBase64, audioMimeType)))))"

text \<open>The inner \<^verbatim>\<open>try ... catch (geminiError)\<close>: the primary provider, then the fallback.\<close>

definition synthesize ::
  "host \<Rightarrow> string \<Rightarrow> string \<Rightarrow> jsval \<Rightarrow> effect list \<times> (js_error + string \<times> string)" where
  "synthesize h str v key =
     (case primary_attempt h str v key of
        (t, Inr r) \<Rightarrow> (t, Inr r)
      | (t, Inl geminiError) \<Rightarrow>
          (let t1 = t @ [ConsoleLog (''Gemini TTS failed: '' @ emessage geminiError)]
           in if platform h \<noteq> ''darwin'' then (t1, Inl geminiError)
              else (case generateSystemTTS h str v of
                      (t2, Inl e) \<Rightarrow> (t1 @ t2, Inl e)
                    | (t2, Inr audioBase64) \<Rightarrow>
                        (t1 @ t2 @ [ConsoleLog ''System TTS fallback successful''],
                         Inr (audioBase64, ''audio/aiff'')))))"

text \<open>The outer \<^verbatim>\<open>catch (error)\<close>.\<close>

definition tts_failed :: "effect list \<Rightarrow> js_error \<Rightarrow> effect list \<times> response" where
  "tts_failed t error =
     (t @ [ConsoleError (''Error in /api/generate-tts: '' @ String_error error)],
      \<lparr>status = 500, body = ErrorBody ''Failed to generate TTS'' (Some (String_error error))\<rparr>)"

text \<open>
  The handler. Its first statement after reading the body logs
  \<^verbatim>\<open>text.substring(0, 50)\<close>, before \<^verbatim>\<open>if (!text)\<close> and \<^verbatim>\<open>if (!apiKey)\<close>.
\<close>

definition generate_tts :: "host \<Rightarrow> tts_request \<Rightarrow> effect list \<times> response" where
  "generate_tts h req =
     (let v = voice_of (tts_voice req) in
      case tts_text req of
        JStr str \<Rightarrow>
          (let t0 = [ConsoleLog (''TTS Request - voice: '' @ v @ '', text: '' @ [CHR 0x22]
                                  @ take 50 str @ ''...'' @ [CHR 0x22])]
           in if \<not> truthy (JStr str) then
                (t0, \<lparr>status = 400, body = ErrorBody ''Missing text in request body'' None\<rparr>)
              else if \<not> truthy (tts_apiKey req) then
                (t0, \<lparr>status = 400, body = ErrorBody ''Missing Gemini API key'' None\<rparr>)
              else (case synthesize h str v (tts_apiKey req) of
                      (t, Inr (audioBase64, audioMimeType)) \<Rightarrow>
                        (t0 @ t, \<lparr>status = 200, body = AudioBody audioBase64 audioMimeType\<rparr>)
                    | (t, Inl error) \<Rightarrow> tts_failed (t0 @ t) error))
      | other \<Rightarrow> tts_failed [] (substring_error other))"

subsection \<open>POST /api/generate-tts, first variant\<close>

text \<open>
  The first of the variants in \<open>src/server.js\<close> (lines 53 to 85): no log line, no key
  check of its own, no fallback. The voice is read from \<open>voiceName\<close>, and the answer has
  \<open>audioBase64\<close> only, which may be empty.
\<close>

record tts_request_A =
  a_text :: jsval
  a_voiceName :: jsval
  a_apiKey :: jsval

definition generate_tts_A :: "host \<Rightarrow> tts_request_A \<Rightarrow> effect list \<times> response" where
  "generate_tts_A h req =
     (let voiceName = (case a_voiceName req of JUndefined \<Rightarrow> JStr ''Puck'' | v \<Rightarrow> v)
      in if \<not> truthy (a_text req) then
           ([], \<lparr>status = 400, body = ErrorBody ''Missing text in request body'' None\<rparr>)
         else (case createAiClient (a_apiKey req) of
                 Inl error \<Rightarrow> tts_failed [] error
               | Inr ai \<Rightarrow>
                   (case generateContent h (a_text req) voiceName ai of
                      GeminiThrows error \<Rightarrow>
                        tts_failed [CallGenerateContent (a_text req) voiceName] error
                    | GeminiResult d m \<Rightarrow>
                        ([CallGenerateContent (a_text req) voiceName],
                         \<lparr>status = 200,
                          body = AudioOnly (case d of None \<Rightarrow> [] | Some x \<Rightarrow> x)\<rparr>))))"

subsection \<open>Counting the calls\<close>

text \<open>How often a request called the primary provider and the shell.\<close>

fun is_primary_call :: "effect \<Rightarrow> bool" where
  "is_primary_call (CallGenerateContent t v) = True"
| "is_primary_call e = False"

fun is_local_call :: "effect \<Rightarrow> bool" where
  "is_local_call (CallExec c) = True"
| "is_local_call e = False"

definition primary_attempts :: "effect list \<Rightarrow> nat" where
  "primary_attempts t = length (filter is_primary_call t)"

definition local_attempts :: "effect list \<Rightarrow> nat" where
  "local_attempts t = length (filter is_local_call t)"

section \<open>The live relay (WebSocket /api/live)\<close>

text \<open>
  The connection handler of \<open>src/unnamed/part_000\<close>. The three variants in
  \<open>src/server.js\<close> have the same message, close and error handlers; they differ in the
  instruction text, the model name and the reading of the voice name.
\<close>

subsection \<open>Messages\<close>

text \<open>What the server sends to the client with \<^verbatim>\<open>ws.send\<close>.\<close>

datatype envelope =
    Connected
  | Disconnected
  | GeminiMessage string
  | ErrorEnvelope string

record config =
  cfg_voiceName :: jsval
  cfg_userName :: jsval
  cfg_apiKey :: jsval

text \<open>
  An inbound frame after \<^verbatim>\<open>JSON.parse(data.toString())\<close>: the parse (or reading
  \<open>message.type\<close>) throws, or the message has one of the three types, or another one.
  \<open>Connect None\<close> is a connect message without a usable \<open>config\<close>.
\<close>

datatype message =
    Connect "config option"
  | AudioInput jsval jsval
  | Disconnect
  | OtherType

datatype frame = Malformed js_error | Parsed message

text \<open>\<^verbatim>\<open>message.config || {}\<close>\<close>

definition config_or_empty :: "config option \<Rightarrow> config" where
  "config_or_empty c =
     (case c of
        None \<Rightarrow> \<lparr>cfg_voiceName = JUndefined, cfg_userName = JUndefined, cfg_apiKey = JUndefined\<rparr>
      | Some cfg \<Rightarrow> cfg)"

text \<open>\<^verbatim>\<open>userName = 'Student'\<close> in the destructuring: the default replaces undefined only.\<close>

fun userName_of :: "jsval \<Rightarrow> jsval" where
  "userName_of JUndefined = JStr ''Student''"
| "userName_of v = v"

subsection \<open>Backend sessions and their promises\<close>

text \<open>
  \<^verbatim>\<open>ai.live.connect(...)\<close> returns a promise of a session. The handlers never await it:
  they register \<^verbatim>\<open>liveSessionPromise.then((session) => ...)\<close>, which runs at once
  when the promise is fulfilled, waits in the promise when it is pending, and never runs
  when it is rejected.
\<close>

datatype reaction = SendRealtimeInput jsval jsval | CloseSession

datatype promise_state = Pending "reaction list" | Fulfilled | Rejected js_error

text \<open>
  One record per call of \<^verbatim>\<open>ai.live.connect\<close>: what it was called with, the state of
  the promise, and what the session has been asked to do (\<open>sendRealtimeInput\<close>,
  \<open>close\<close>) or has reported (\<open>onclose\<close>, \<open>onerror\<close>).
\<close>

record backend =
  b_apiKey :: jsval
  b_voiceName :: string
  b_userName :: jsval
  promise :: promise_state
  realtimeInput :: "(jsval \<times> jsval) list"
  close_calls :: nat
  remote_closed :: bool
  remote_error :: bool

text \<open>
  The body of the two \<open>then\<close> callbacks; the session of the SDK has both methods, so
  the tests \<^verbatim>\<open>session && typeof session.close === 'function'\<close> pass.
\<close>

fun apply_reaction :: "reaction \<Rightarrow> backend \<Rightarrow> backend" where
  "apply_reaction (SendRealtimeInput audioData mimeType) b =
     b\<lparr>realtimeInput := realtimeInput b @ [(audioData, mimeType)]\<rparr>"
| "apply_reaction CloseSession b = b\<lparr>close_calls := close_calls b + 1\<rparr>"

definition promise_then :: "reaction \<Rightarrow> backend \<Rightarrow> backend" where
  "promise_then r b =
     (case promise b of
        Pending rs \<Rightarrow> b\<lparr>promise := Pending (rs @ [r])\<rparr>
      | Fulfilled \<Rightarrow> apply_reaction r b
      | Rejected e \<Rightarrow> b)"

subsection \<open>One connection\<close>

text \<open>
  The closure of \<^verbatim>\<open>wss.on('connection', (ws) => ...)\<close>: its two variables \<open>ai\<close> and
  \<open>liveSessionPromise\<close> (an index into \<open>backends\<close>, or null), and around them the
  socket (what was sent on it, how often \<open>close()\<close> was called on it, whether its close
  event has fired), every backend session requested so far, and the console.
\<close>

record conn =
  ai :: "jsval option"
  liveSessionPromise :: "nat option"
  backends :: "backend list"
  outbox :: "envelope list"
  ws_close_calls :: nat
  transport_closed :: bool
  console :: "string list"

text \<open>A new connection: \<^verbatim>\<open>let ai = null; let liveSessionPromise = null;\<close> after a log line.\<close>

definition init :: conn where
  "init = \<lparr>ai = None, liveSessionPromise = None, backends = [], outbox = [],
           ws_close_calls = 0, transport_closed = False,
           console = [''Client connected to /api/live'']\<rparr>"

definition ws_send :: "envelope \<Rightarrow> conn \<Rightarrow> conn" where
  "ws_send e s = s\<lparr>outbox := outbox s @ [e]\<rparr>"

definition ws_close :: "conn \<Rightarrow> conn" where
  "ws_close s = s\<lparr>ws_close_calls := ws_close_calls s + 1\<rparr>"

definition console_log :: "string \<Rightarrow> conn \<Rightarrow> conn" where
  "console_log l s = s\<lparr>console := console s @ [l]\<rparr>"

text \<open>\<^verbatim>\<open>liveSessionPromise.then(...)\<close> on the promise with index \<open>p\<close>.\<close>

definition then_on :: "nat \<Rightarrow> reaction \<Rightarrow> conn \<Rightarrow> conn" where
  "then_on p r s =
     (if p < length (backends s)
      then s\<lparr>backends := (backends s)[p := promise_then r (backends s ! p)]\<rparr>
      else s)"

text \<open>
  What the SDK does when the connect branch calls it: \<^verbatim>\<open>new GoogleGenAI\<close> throws, or
  \<^verbatim>\<open>ai.live.connect\<close> throws before returning, or it returns the promise.
\<close>

datatype sdk_outcome = ConstructorThrows js_error | ConnectThrows js_error | ConnectReturns

definition connect_failed :: "js_error \<Rightarrow> conn \<Rightarrow> conn" where
  "connect_failed err s =
     ws_send (ErrorEnvelope (''Failed to connect to Gemini: '' @ String_error err))
       (console_log (''Failed to connect to Gemini: '' @ String_error err) s)"

definition new_backend :: "jsval \<Rightarrow> string \<Rightarrow> jsval \<Rightarrow> backend" where
  "new_backend key voiceName userName =
     \<lparr>b_apiKey = key, b_voiceName = voiceName, b_userName = userName, promise = Pending [],
      realtimeInput = [], close_calls = 0, remote_closed = False, remote_error = False\<rparr>"

text \<open>\<^verbatim>\<open>ws.on('message', async (data) => { try { ... } catch (error) { ... } })\<close>\<close>

definition on_message :: "sdk_outcome \<Rightarrow> frame \<Rightarrow> conn \<Rightarrow> conn" where
  "on_message sdk f s =
     (case f of
        Malformed error \<Rightarrow>
          ws_send (ErrorEnvelope (String_error error))
            (console_log (''Error handling WS message: '' @ String_error error) s)
      | Parsed (Connect c) \<Rightarrow>
          (let cfg = config_or_empty c;
               voiceName = voice_of (cfg_voiceName cfg);
               userName = userName_of (cfg_userName cfg);
               apiKey = cfg_apiKey cfg
           in if \<not> truthy apiKey then ws_send (ErrorEnvelope ''Missing API key'') s
              else (case sdk of
                      ConstructorThrows err \<Rightarrow> connect_failed err s
                    | ConnectThrows err \<Rightarrow> connect_failed err (s\<lparr>ai := Some apiKey\<rparr>)
                    | ConnectReturns \<Rightarrow>
                        s\<lparr>ai := Some apiKey,
                          backends := backends s @ [new_backend apiKey voiceName userName],
                          liveSessionPromise := Some (length (backends s))\<rparr>))
      | Parsed (AudioInput audioData mimeType) \<Rightarrow>
          (case liveSessionPromise s of
             None \<Rightarrow> s
           | Some p \<Rightarrow> then_on p (SendRealtimeInput audioData mimeType) s)
      | Parsed Disconnect \<Rightarrow>
          ws_close
            (case liveSessionPromise s of
               None \<Rightarrow> s
             | Some p \<Rightarrow> (then_on p CloseSession s)\<lparr>liveSessionPromise := None\<rparr>)
      | Parsed OtherType \<Rightarrow> s)"

text \<open>\<^verbatim>\<open>ws.on('close', () => { console.log('WebSocket client disconnected'); })\<close>\<close>

definition on_close :: "conn \<Rightarrow> conn" where
  "on_close s = console_log ''WebSocket client disconnected'' (s\<lparr>transport_closed := True\<rparr>)"

text \<open>\<^verbatim>\<open>ws.on('error', (err) => { console.error('WebSocket error:', err); })\<close>\<close>

definition on_error :: "js_error \<Rightarrow> conn \<Rightarrow> conn" where
  "on_error err s = console_log (''WebSocket error: '' @ String_error err) s"

subsection \<open>The callbacks given to ai.live.connect\<close>

text \<open>
  \<open>onopen\<close> runs when the backend session opens; the promise is fulfilled right after,
  and the reactions waiting in it run in the order they were registered.
\<close>

definition backend_open :: "nat \<Rightarrow> conn \<Rightarrow> conn" where
  "backend_open p s =
     (if p < length (backends s) then
        (case promise (backends s ! p) of
           Pending rs \<Rightarrow>
             (ws_send Connected (console_log ''Connected to Gemini Live'' s))
               \<lparr>backends := (backends s)[p := fold apply_reaction rs
                                                ((backends s ! p)\<lparr>promise := Fulfilled\<rparr>)]\<rparr>
         | Fulfilled \<Rightarrow> s
         | Rejected e \<Rightarrow> s)
      else s)"

definition backend_reject :: "nat \<Rightarrow> js_error \<Rightarrow> conn \<Rightarrow> conn" where
  "backend_reject p e s =
     (if p < length (backends s) then
        (case promise (backends s ! p) of
           Pending rs \<Rightarrow> s\<lparr>backends := (backends s)[p := (backends s ! p)\<lparr>promise := Rejected e\<rparr>]\<rparr>
         | Fulfilled \<Rightarrow> s
         | Rejected e' \<Rightarrow> s)
      else s)"

definition backend_message :: "nat \<Rightarrow> string \<Rightarrow> conn \<Rightarrow> conn" where
  "backend_message p serverContent s =
     (if p < length (backends s) then ws_send (GeminiMessage serverContent) s else s)"

definition backend_close :: "nat \<Rightarrow> conn \<Rightarrow> conn" where
  "backend_close p s =
     (if p < length (backends s) then
        (ws_send Disconnected (console_log ''Gemini Live session closed'' s))
          \<lparr>backends := (backends s)[p := (backends s ! p)\<lparr>remote_closed := True\<rparr>]\<rparr>
      else s)"

definition backend_error :: "nat \<Rightarrow> js_error \<Rightarrow> conn \<Rightarrow> conn" where
  "backend_error p err s =
     (if p < length (backends s) then
        (ws_send (ErrorEnvelope (String_error err))
           (console_log (''Gemini Live session error: '' @ String_error err) s))
          \<lparr>backends := (backends s)[p := (backends s ! p)\<lparr>remote_error := True\<rparr>]\<rparr>
      else s)"

subsection \<open>Runs\<close>

datatype event =
    WsMessage sdk_outcome frame
  | WsClose
  | WsError js_error
  | BackendOpen nat
  | BackendReject nat js_error
  | BackendMessage nat string
  | BackendClose nat
  | BackendError nat js_error

fun step :: "event \<Rightarrow> conn \<Rightarrow> conn" where
  "step (WsMessage sdk f) s = on_message sdk f s"
| "step WsClose s = on_close s"
| "step (WsError err) s = on_error err s"
| "step (BackendOpen p) s = backend_open p s"
| "step (BackendReject p e) s = backend_reject p e s"
| "step (BackendMessage p c) s = backend_message p c s"
| "step (BackendClose p) s = backend_close p s"
| "step (BackendError p err) s = backend_error p err s"

definition run :: "event list \<Rightarrow> conn" where
  "run evs = fold step evs init"

subsection \<open>The states of the session, read off a connection\<close>

text \<open>
  The code keeps no state variable. A session is closed once the socket has been closed
  or asked to close; otherwise it is idle while \<open>liveSessionPromise\<close> is null,
  connecting while that promise is pending, and active once it is fulfilled, unless the
  backend has reported an error or a close.
\<close>

datatype phase = Idle | Connecting | Active | Closed | Errored

definition phase :: "conn \<Rightarrow> phase" where
  "phase s =
     (if transport_closed s \<or> 0 < ws_close_calls s then Closed
      else case liveSessionPromise s of
             None \<Rightarrow> Idle
           | Some p \<Rightarrow>
               (if p < length (backends s) then
                  (case promise (backends s ! p) of
                     Pending rs \<Rightarrow> Connecting
                   | Rejected e \<Rightarrow> Errored
                   | Fulfilled \<Rightarrow>
                       if remote_error (backends s ! p) then Errored
                       else if remote_closed (backends s ! p) then Closed
                       else Active)
                else Idle))"

text \<open>
  How often \<open>close()\<close> has been called on a backend session, or waits in its promise
  to be called when the session opens.
\<close>

definition close_requests :: "backend \<Rightarrow> nat" where
  "close_requests b =
     close_calls b +
     (case promise b of
        Pending rs \<Rightarrow> length (filter (\<lambda>r. r = CloseSession) rs)
      | Fulfilled \<Rightarrow> 0
      | Rejected e \<Rightarrow> 0)"

text \<open>
  A backend session is live when it is open or still opening, and nothing has closed it
  or will: no \<open>close()\<close> called or waiting, no close reported by the backend.
\<close>

definition live :: "backend \<Rightarrow> bool" where
  "live b =
     ((case promise b of Rejected e \<Rightarrow> False | Pending rs \<Rightarrow> True | Fulfilled \<Rightarrow> True)
      \<and> close_requests b = 0 \<and> \<not> remote_closed b)"

text \<open>Every audio frame handed to some backend session, in the order of the sessions.\<close>

definition forwarded :: "conn \<Rightarrow> (jsval \<times> jsval) list" where
  "forwarded s = concat (map realtimeInput (backends s))"

text \<open>The audio frames among the reactions that wait in a promise, in their order.\<close>

fun queued_frames :: "reaction list \<Rightarrow> (jsval \<times> jsval) list" where
  "queued_frames [] = []"
| "queued_frames (SendRealtimeInput audioData mimeType # rs) =
     (audioData, mimeType) # queued_frames rs"
| "queued_frames (CloseSession # rs) = queued_frames rs"

text \<open>All the close requests of a connection, over every backend session it has asked for.\<close>

definition total_close_requests :: "conn \<Rightarrow> nat" where
  "total_close_requests s = sum_list (map close_requests (backends s))"

text \<open>\<open>liveSessionPromise\<close>, when it is not null, is one of the promises created so far.\<close>

definition promise_in_range :: "conn \<Rightarrow> bool" where
  "promise_in_range s =
     (case liveSessionPromise s of None \<Rightarrow> True | Some p \<Rightarrow> p < length (backends s))"


section \<open>Concrete hosts, requests and messages\<close>

text \<open>
  A host whose primary provider always throws and whose \<open>say\<close> command fails, on
  macOS and on Linux; a request with all three fields; a connect message with a key.
\<close>

definition failing_host :: "string \<Rightarrow> host" where
  "failing_host pf =
     \<lparr>platform = pf,
      generateContent = (\<lambda>t v k. GeminiThrows (Error ''quota'')),
      exec = (\<lambda>c. ExecError (Error ''say failed''))\<rparr>"

definition hello_request :: tts_request where
  "hello_request = \<lparr>tts_text = JStr ''hello'', tts_voice = JStr ''Kore'', tts_apiKey = JStr ''key''\<rparr>"

definition key_config :: "config option" where
  "key_config =
     Some \<lparr>cfg_voiceName = JUndefined, cfg_userName = JUndefined, cfg_apiKey = JStr ''key''\<rparr>"

definition connect_key :: event where
  "connect_key = WsMessage ConnectReturns (Parsed (Connect key_config))"

definition audio_abc :: event where
  "audio_abc = WsMessage ConnectReturns (Parsed (AudioInput (JStr ''abc'') (JStr ''audio/pcm'')))"

definition audio_def :: event where
  "audio_def = WsMessage ConnectReturns (Parsed (AudioInput (JStr ''def'') (JStr ''audio/pcm'')))"

definition disconnect :: event where
  "disconnect = WsMessage ConnectReturns (Parsed Disconnect)"

text \<open>The details of a 500 answer.\<close>

definition details :: "response \<Rightarrow> string" where
  "details r =
     (case body r of
        ErrorBody e (Some d) \<Rightarrow> d
      | ErrorBody e None \<Rightarrow> []
      | AudioBody a m \<Rightarrow> []
      | AudioOnly a \<Rightarrow> [])"

section \<open>Properties of the speech endpoint\<close>

subsection \<open>Counting the attempts\<close>

lemma attempts_Nil_Cons:
  "local_attempts [] = 0"
  "primary_attempts [] = 0"
  "local_attempts (e # t) = (if is_local_call e then 1 else 0) + local_attempts t"
  "primary_attempts (e # t) = (if is_primary_call e then 1 else 0) + primary_attempts t"
  by (simp_all add: local_attempts_def primary_attempts_def)

lemma attempts_append:
  "local_attempts (a @ b) = local_attempts a + local_attempts b"
  "primary_attempts (a @ b) = primary_attempts a + primary_attempts b"
  by (simp_all add: local_attempts_def primary_attempts_def)

lemma primary_attempt_at_most_once:
  "primary_attempts (fst (primary_attempt h str v key)) \<le> 1"
  by (auto simp: primary_attempt_def primary_attempts_def createAiClient_def Let_def
      split: sum.splits gemini_outcome.splits)

lemma primary_attempt_no_local:
  "local_attempts (fst (primary_attempt h str v key)) = 0"
  by (auto simp: primary_attempt_def local_attempts_def createAiClient_def Let_def
      split: sum.splits gemini_outcome.splits)

lemma generateSystemTTS_one_exec:
  "local_attempts (fst (generateSystemTTS h str v)) = 1"
  by (auto simp: generateSystemTTS_def local_attempts_def Let_def
      split: exec_outcome.splits option.splits)

lemma generateSystemTTS_no_primary:
  "primary_attempts (fst (generateSystemTTS h str v)) = 0"
  by (auto simp: generateSystemTTS_def primary_attempts_def Let_def
      split: exec_outcome.splits option.splits)

lemma failing_host_primary:
  "primary_attempt (failing_host pf) ''hello'' ''Kore'' (JStr ''key'') =
     ([ConsoleLog ''Using Gemini TTS with voice: Kore'',
      CallGenerateContent (JStr ''hello'') (JStr ''Kore'')],
      Inl (Error ''quota''))"
  by (simp add: primary_attempt_def failing_host_def createAiClient_def)

lemma failing_host_platform: "platform (failing_host pf) = pf"
  by (simp add: failing_host_def)

lemma trim_Kore: "trim ''Kore'' = ''Kore''"
  by (simp add: trim_def is_space_def)

subsection \<open>C6: the two tiers\<close>

text \<open>
  C6. Take a request that passes validation (its text is a non-empty string, its key is
  truthy) and whose primary attempt throws \<open>geminiError\<close>. On a host whose platform is
  not \<open>darwin\<close> the answer is the 500 \<open>Failed to generate TTS\<close> carrying
  \<open>String(geminiError)\<close>, and the shell is never called; on \<open>darwin\<close> the shell is
  called exactly once. In both cases the primary provider is called at most once.
\<close>

theorem fallback_policy:
  assumes "tts_text req = JStr str" and "str \<noteq> []" and "truthy (tts_apiKey req)"
    and "primary_attempt h str (voice_of (tts_voice req)) (tts_apiKey req) = (t, Inl geminiError)"
  shows "(platform h \<noteq> ''darwin'' \<longrightarrow>
            snd (generate_tts h req) =
              \<lparr>status = 500,
               body = ErrorBody ''Failed to generate TTS'' (Some (String_error geminiError))\<rparr>
            \<and> local_attempts (fst (generate_tts h req)) = 0)
       \<and> (platform h = ''darwin'' \<longrightarrow> local_attempts (fst (generate_tts h req)) = 1)
       \<and> primary_attempts (fst (generate_tts h req)) \<le> 1"
proof -
  let ?v = "voice_of (tts_voice req)"
  have p0: "local_attempts t = 0"
    using primary_attempt_no_local [of h str ?v "tts_apiKey req"] assms(4) by simp
  have p1: "primary_attempts t \<le> 1"
    using primary_attempt_at_most_once [of h str ?v "tts_apiKey req"] assms(4) by simp
  have l1: "local_attempts (fst (generateSystemTTS h str ?v)) = 1"
    by (rule generateSystemTTS_one_exec)
  have l0: "primary_attempts (fst (generateSystemTTS h str ?v)) = 0"
    by (rule generateSystemTTS_no_primary)
  show ?thesis
    using assms p0 p1 l1 l0
    by (auto simp: generate_tts_def synthesize_def tts_failed_def Let_def attempts_append
        attempts_Nil_Cons split: prod.splits sum.splits)
qed

theorem fallback_policy_witness:
  "snd (generate_tts (failing_host ''linux'') hello_request) =
     \<lparr>status = 500, body = ErrorBody ''Failed to generate TTS'' (Some ''Error: quota'')\<rparr>
   \<and> local_attempts (fst (generate_tts (failing_host ''linux'') hello_request)) = 0
   \<and> local_attempts (fst (generate_tts (failing_host ''darwin'') hello_request)) = 1
   \<and> primary_attempts (fst (generate_tts (failing_host ''darwin'') hello_request)) \<le> 1"
proof -
  have r: "tts_text hello_request = JStr ''hello''" "''hello'' \<noteq> []"
    "truthy (tts_apiKey hello_request)"
    by (simp_all add: hello_request_def)
  have a: "primary_attempt (failing_host pf) ''hello'' (voice_of (tts_voice hello_request))
             (tts_apiKey hello_request) =
           ([ConsoleLog ''Using Gemini TTS with voice: Kore'',
             CallGenerateContent (JStr ''hello'') (JStr ''Kore'')], Inl (Error ''quota''))" for pf
    using failing_host_primary [of pf] by (simp add: hello_request_def trim_Kore)
  have lin: "platform (failing_host ''linux'') \<noteq> ''darwin''"
    and mac: "platform (failing_host ''darwin'') = ''darwin''"
    by (simp_all add: failing_host_def)
  show ?thesis
    using fallback_policy [OF r a [of "''linux''"]] fallback_policy [OF r a [of "''darwin''"]]
      lin mac
    by (simp add: Error_def)
qed

subsection \<open>C9: what the answer says when both tiers fail\<close>

text \<open>
  C9, as the code has it. When the primary attempt throws \<open>geminiError\<close>, the platform
  is \<open>darwin\<close> and \<open>generateSystemTTS\<close> rejects with \<open>localError\<close>, the answer is
  the 500 \<open>Failed to generate TTS\<close> whose details are \<open>String(localError)\<close> alone; the
  message of \<open>geminiError\<close> goes to the console only.
\<close>

theorem both_tiers_fail_details:
  assumes "tts_text req = JStr str" and "str \<noteq> []" and "truthy (tts_apiKey req)"
    and "primary_attempt h str (voice_of (tts_voice req)) (tts_apiKey req) = (t, Inl geminiError)"
    and "platform h = ''darwin''"
    and "generateSystemTTS h str (voice_of (tts_voice req)) = (t2, Inl localError)"
  shows "snd (generate_tts h req) =
           \<lparr>status = 500,
            body = ErrorBody ''Failed to generate TTS'' (Some (String_error localError))\<rparr>
       \<and> ConsoleLog (''Gemini TTS failed: '' @ emessage geminiError) \<in> set (fst (generate_tts h req))"
  using assms
  by (simp add: generate_tts_def synthesize_def tts_failed_def Let_def)

lemma failing_host_local:
  "generateSystemTTS (failing_host ''darwin'') ''hello'' ''Kore'' =
     ([CallExec (Say (JStr ''Karen'') ''hello''), ConsoleError ''System TTS error: Error: say failed''],
      Inl (Error ''say failed''))"
  by (simp add: generateSystemTTS_def failing_host_def systemVoice_def voiceMap_get_def
      voiceMap_def Error_def)

theorem both_tiers_fail_details_witness:
  "snd (generate_tts (failing_host ''darwin'') hello_request) =
     \<lparr>status = 500, body = ErrorBody ''Failed to generate TTS'' (Some ''Error: say failed'')\<rparr>
   \<and> ConsoleLog ''Gemini TTS failed: quota''
       \<in> set (fst (generate_tts (failing_host ''darwin'') hello_request))"
proof -
  have r: "tts_text hello_request = JStr ''hello''" "''hello'' \<noteq> []"
    "truthy (tts_apiKey hello_request)"
    by (simp_all add: hello_request_def)
  have a: "primary_attempt (failing_host ''darwin'') ''hello''
             (voice_of (tts_voice hello_request)) (tts_apiKey hello_request) =
           ([ConsoleLog ''Using Gemini TTS with voice: Kore'',
             CallGenerateContent (JStr ''hello'') (JStr ''Kore'')], Inl (Error ''quota''))"
    using failing_host_primary [of "''darwin''"] by (simp add: hello_request_def trim_Kore)
  have mac: "platform (failing_host ''darwin'') = ''darwin''"
    by (simp add: failing_host_def)
  have l: "generateSystemTTS (failing_host ''darwin'') ''hello''
             (voice_of (tts_voice hello_request)) =
           ([CallExec (Say (JStr ''Karen'') ''hello''),
             ConsoleError ''System TTS error: Error: say failed''], Inl (Error ''say failed''))"
    using failing_host_local by (simp add: hello_request_def trim_Kore)
  show ?thesis
    using both_tiers_fail_details [OF r a mac l] by (simp add: Error_def)
qed

text \<open>
  The claim as the specification states it fails on that host: the primary attempt threw
  \<open>Error: quota\<close>, the local one \<open>Error: say failed\<close>, and the details of the
  answer do not contain the description of the primary failure.
\<close>

theorem combined_diagnostic_counterexample:
  "snd (primary_attempt (failing_host ''darwin'') ''hello'' ''Kore'' (JStr ''key''))
     = Inl (Error ''quota'')
   \<and> snd (generateSystemTTS (failing_host ''darwin'') ''hello'' ''Kore'')
     = Inl (Error ''say failed'')
   \<and> details (snd (generate_tts (failing_host ''darwin'') hello_request)) = ''Error: say failed''
   \<and> \<not> sublist (emessage (Error ''quota''))
         (details (snd (generate_tts (failing_host ''darwin'') hello_request)))"
proof -
  have d: "details (snd (generate_tts (failing_host ''darwin'') hello_request))
           = ''Error: say failed''"
    by (simp add: generate_tts_def synthesize_def tts_failed_def hello_request_def trim_Kore
        failing_host_primary failing_host_local failing_host_platform details_def Error_def
        Let_def)
  have n: "\<not> sublist ''quota'' ''Error: say failed''"
    by code_simp
  show ?thesis
    using d n by (simp add: failing_host_primary failing_host_local Error_def)
qed

subsection \<open>C7: resolving the local voice\<close>

text \<open>
  The lookup never yields undefined, and a name that is neither in the table nor a member
  of \<open>Object.prototype\<close> resolves to \<open>Karen\<close>.
\<close>

lemma systemVoice_truthy: "truthy (systemVoice v)"
  by (simp add: systemVoice_def Let_def)

lemma systemVoice_default:
  assumes "map_of voiceMap v = None" and "v \<notin> set object_prototype_keys"
  shows "systemVoice v = JStr ''Karen''"
  using assms by (simp add: systemVoice_def voiceMap_get_def)

text \<open>
  C7 at \<open>constructor\<close>. The name is not in the table, and \<^verbatim>\<open>voiceMap[voice] || 'Karen'\<close>
  is not the default: it is the function inherited from \<open>Object.prototype\<close>, which
  \<open>generateSystemTTS\<close> then writes into the \<open>say\<close> command.
\<close>

theorem systemVoice_inherited_name:
  "map_of voiceMap ''constructor'' = None
   \<and> systemVoice ''constructor'' = JObj ''Object.prototype.constructor''
   \<and> systemVoice ''constructor'' \<noteq> JStr ''Karen''
   \<and> fst (generateSystemTTS (failing_host ''darwin'') ''hello'' ''constructor'') =
       [CallExec (Say (JObj ''Object.prototype.constructor'') ''hello''),
        ConsoleError ''System TTS error: Error: say failed'']"
  by (simp add: systemVoice_def voiceMap_get_def voiceMap_def object_prototype_keys_def
      generateSystemTTS_def failing_host_def Error_def)

subsection \<open>C8: validation of the request\<close>

text \<open>
  An empty text, and a missing key beside a text that is a string, are answered with 400
  before the provider is called.
\<close>

lemma empty_text_is_400:
  "snd (generate_tts h \<lparr>tts_text = JStr [], tts_voice = v, tts_apiKey = k\<rparr>) =
     \<lparr>status = 400, body = ErrorBody ''Missing text in request body'' None\<rparr>
   \<and> primary_attempts (fst (generate_tts h \<lparr>tts_text = JStr [], tts_voice = v, tts_apiKey = k\<rparr>)) = 0"
  by (simp add: generate_tts_def Let_def attempts_Nil_Cons)

lemma missing_key_is_400:
  assumes "\<not> truthy k" and "str \<noteq> []"
  shows "snd (generate_tts h \<lparr>tts_text = JStr str, tts_voice = v, tts_apiKey = k\<rparr>) =
           \<lparr>status = 400, body = ErrorBody ''Missing Gemini API key'' None\<rparr>
       \<and> primary_attempts (fst (generate_tts h \<lparr>tts_text = JStr str, tts_voice = v, tts_apiKey = k\<rparr>)) = 0"
  using assms by (simp add: generate_tts_def Let_def attempts_Nil_Cons)

text \<open>
  The first variant checks the text first, but has no check of the key: a request with a
  text and without a key runs into the exception of \<open>createAiClient\<close> and is answered
  with 500. The provider is not called.
\<close>

lemma missing_key_is_500_in_first_variant:
  assumes "truthy t" and "\<not> truthy k"
  shows "snd (generate_tts_A h \<lparr>a_text = t, a_voiceName = v, a_apiKey = k\<rparr>) =
           \<lparr>status = 500,
            body = ErrorBody ''Failed to generate TTS'' (Some ''Error: Missing Gemini API key'')\<rparr>
       \<and> primary_attempts (fst (generate_tts_A h \<lparr>a_text = t, a_voiceName = v, a_apiKey = k\<rparr>)) = 0"
  using assms
  by (simp add: generate_tts_A_def createAiClient_def tts_failed_def Error_def Let_def
      attempts_Nil_Cons)

lemma missing_text_is_400_in_first_variant:
  assumes "\<not> truthy t"
  shows "generate_tts_A h \<lparr>a_text = t, a_voiceName = v, a_apiKey = k\<rparr> =
           ([], \<lparr>status = 400, body = ErrorBody ''Missing text in request body'' None\<rparr>)"
  using assms by (simp add: generate_tts_A_def Let_def)

text \<open>
  C8 at a body without \<open>text\<close>. The log line reads \<^verbatim>\<open>text.substring(0, 50)\<close> before
  \<^verbatim>\<open>if (!text)\<close> is reached: the \<open>TypeError\<close> goes to the outer catch, and the answer
  is 500, not 400. The provider is not called.
\<close>

theorem missing_text_is_500:
  "snd (generate_tts h \<lparr>tts_text = JUndefined, tts_voice = JUndefined, tts_apiKey = JStr ''k''\<rparr>) =
     \<lparr>status = 500,
      body = ErrorBody ''Failed to generate TTS''
               (Some (''TypeError: Cannot read properties of undefined (reading ''
                      @ [CHR 0x27] @ ''substring'' @ [CHR 0x27] @ '')''))\<rparr>
   \<and> primary_attempts
       (fst (generate_tts h \<lparr>tts_text = JUndefined, tts_voice = JUndefined, tts_apiKey = JStr ''k''\<rparr>)) = 0"
  by (simp add: generate_tts_def tts_failed_def TypeError_def attempts_Nil_Cons)

section \<open>Properties of the live relay\<close>

subsection \<open>Unfolding the handlers\<close>

lemmas relay_defs =
  on_message_def on_close_def on_error_def backend_open_def backend_reject_def
  backend_message_def backend_close_def backend_error_def ws_send_def ws_close_def
  console_log_def connect_failed_def then_on_def Let_def

lemmas example_defs =
  run_def init_def connect_key_def key_config_def audio_abc_def audio_def_def disconnect_def
  config_or_empty_def new_backend_def promise_then_def

lemma then_on_fields:
  "liveSessionPromise (then_on p r s) = liveSessionPromise s"
  "outbox (then_on p r s) = outbox s"
  "ws_close_calls (then_on p r s) = ws_close_calls s"
  "transport_closed (then_on p r s) = transport_closed s"
  "console (then_on p r s) = console s"
  "ai (then_on p r s) = ai s"
  "length (backends (then_on p r s)) = length (backends s)"
  by (simp_all add: then_on_def)

lemma phase_frame:
  "phase (s\<lparr>outbox := ob\<rparr>) = phase s"
  "phase (s\<lparr>console := c\<rparr>) = phase s"
  "phase (s\<lparr>ai := x\<rparr>) = phase s"
  by (simp_all add: phase_def cong: option.case_cong if_cong promise_state.case_cong)

lemma map_update_same:
  assumes "p < length xs" and "f y = f (xs ! p)"
  shows "map f (xs[p := y]) = map f xs"
  using assms by (simp add: map_update list_update_same_conv)

lemma sum_list_map_update:
  fixes f :: "'a \<Rightarrow> nat"
  assumes "p < length xs"
  shows "sum_list (map f (xs[p := y])) + f (xs ! p) = sum_list (map f xs) + f y"
  using assms
proof (induction xs arbitrary: p)
  case Nil
  then show ?case by simp
next
  case (Cons x xs)
  then show ?case by (cases p) auto
qed

subsection \<open>The promise index stays in range\<close>

lemma step_promise_in_range: "promise_in_range s \<Longrightarrow> promise_in_range (step e s)"
  by (cases e)
     (auto simp: promise_in_range_def relay_defs
        split: frame.splits message.splits sdk_outcome.splits option.splits
          promise_state.splits)

lemma fold_step_promise_in_range:
  "promise_in_range s \<Longrightarrow> promise_in_range (fold step evs s)"
  by (induction evs arbitrary: s) (simp_all add: step_promise_in_range)

lemma run_promise_in_range: "promise_in_range (run evs)"
  unfolding run_def by (rule fold_step_promise_in_range) (simp add: promise_in_range_def init_def)

subsection \<open>What waits in a promise runs when the session opens\<close>

lemma fold_apply_reaction_close_calls:
  "close_calls (fold apply_reaction rs b) =
     close_calls b + length (filter (\<lambda>r. r = CloseSession) rs)"
proof (induction rs arbitrary: b)
  case Nil
  then show ?case by simp
next
  case (Cons r rs)
  then show ?case by (cases r) simp_all
qed

lemma fold_apply_reaction_promise: "promise (fold apply_reaction rs b) = promise b"
proof (induction rs arbitrary: b)
  case Nil
  then show ?case by simp
next
  case (Cons r rs)
  then show ?case by (cases r) simp_all
qed

lemma backend_open_close_requests:
  assumes "p < length (backends s)"
  shows "close_requests (backends (backend_open p s) ! p) = close_requests (backends s ! p)"
  using assms
  by (simp add: backend_open_def close_requests_def ws_send_def console_log_def
      fold_apply_reaction_close_calls fold_apply_reaction_promise split: promise_state.splits)

subsection \<open>C3: connect without a credential\<close>

text \<open>
  C3. In an idle session, a connect message whose \<open>apiKey\<close> is falsy (absent, null, the
  empty string; also when \<open>config\<close> itself is absent) changes nothing but the outbox,
  which gets exactly one envelope, the error \<open>Missing API key\<close>: the session is still
  idle and no backend session has been asked for, whatever the SDK would have done.
\<close>

theorem connect_without_credential:
  assumes "phase s = Idle" and "\<not> truthy (cfg_apiKey (config_or_empty c))"
  shows "on_message sdk (Parsed (Connect c)) s =
           s\<lparr>outbox := outbox s @ [ErrorEnvelope ''Missing API key'']\<rparr>
       \<and> phase (on_message sdk (Parsed (Connect c)) s) = Idle
       \<and> backends (on_message sdk (Parsed (Connect c)) s) = backends s"
  using assms by (simp add: on_message_def Let_def ws_send_def phase_frame)

theorem connect_without_credential_witness:
  "on_message ConnectReturns (Parsed (Connect None)) init =
     init\<lparr>outbox := [ErrorEnvelope ''Missing API key'']\<rparr>
   \<and> on_message ConnectReturns
        (Parsed (Connect (Some \<lparr>cfg_voiceName = JStr ''Kore'', cfg_userName = JStr ''Ana'',
                                cfg_apiKey = JStr []\<rparr>))) init =
     init\<lparr>outbox := [ErrorEnvelope ''Missing API key'']\<rparr>
   \<and> phase (on_message ConnectReturns (Parsed (Connect None)) init) = Idle
   \<and> backends (on_message ConnectReturns (Parsed (Connect None)) init) = []"
proof -
  have i: "phase init = Idle"
    by (simp add: phase_def init_def)
  have a: "\<not> truthy (cfg_apiKey (config_or_empty None))"
    by (simp add: config_or_empty_def)
  have b: "\<not> truthy (cfg_apiKey (config_or_empty
             (Some \<lparr>cfg_voiceName = JStr ''Kore'', cfg_userName = JStr ''Ana'',
                    cfg_apiKey = JStr []\<rparr>)))"
    by (simp add: config_or_empty_def)
  have o: "outbox init = []" "backends init = []"
    by (simp_all add: init_def)
  show ?thesis
    using connect_without_credential [OF i a, of ConnectReturns]
      connect_without_credential [OF i b, of ConnectReturns] o i
    by (simp add: phase_frame)
qed

subsection \<open>C10: disconnect closes the socket\<close>

text \<open>
  C10. A disconnect message calls \<open>ws.close()\<close> once in every state of the connection,
  with or without a backend session, and the session is closed afterwards.
\<close>

theorem disconnect_closes_transport:
  "ws_close_calls (on_message sdk (Parsed Disconnect) s) = ws_close_calls s + 1
   \<and> phase (on_message sdk (Parsed Disconnect) s) = Closed"
  by (simp add: on_message_def ws_close_def phase_def then_on_fields split: option.splits)

subsection \<open>C5: disconnect twice\<close>

lemma close_requests_then:
  "close_requests (promise_then CloseSession b) =
     close_requests b
     + (case promise b of Rejected e \<Rightarrow> 0 | Pending rs \<Rightarrow> 1 | Fulfilled \<Rightarrow> 1)"
  by (simp add: close_requests_def promise_then_def split: promise_state.splits)

lemma disconnect_total:
  assumes "liveSessionPromise s = Some p" and "p < length (backends s)"
  shows "total_close_requests (on_message sdk (Parsed Disconnect) s) =
     total_close_requests s
     + (case promise (backends s ! p) of Rejected e \<Rightarrow> 0 | Pending rs \<Rightarrow> 1 | Fulfilled \<Rightarrow> 1)"
  using assms
    sum_list_map_update [of p "backends s" close_requests
      "promise_then CloseSession (backends s ! p)"]
  by (simp add: total_close_requests_def on_message_def ws_close_def then_on_def
      close_requests_then)

lemma disconnect_clears: "liveSessionPromise (on_message sdk (Parsed Disconnect) s) = None"
  by (simp add: on_message_def ws_close_def then_on_fields split: option.splits)

lemma disconnect_outbox: "outbox (on_message sdk (Parsed Disconnect) s) = outbox s"
  by (simp add: on_message_def ws_close_def then_on_fields split: option.splits)

lemma disconnect_without_promise:
  "liveSessionPromise s = None \<Longrightarrow> on_message sdk (Parsed Disconnect) s = ws_close s"
  by (simp add: on_message_def)

lemma second_disconnect:
  "on_message sdk2 (Parsed Disconnect) (on_message sdk1 (Parsed Disconnect) s) =
     ws_close (on_message sdk1 (Parsed Disconnect) s)"
  by (rule disconnect_without_promise) (rule disconnect_clears)

lemma ws_close_fields:
  "outbox (ws_close s) = outbox s"
  "backends (ws_close s) = backends s"
  "liveSessionPromise (ws_close s) = liveSessionPromise s"
  "total_close_requests (ws_close s) = total_close_requests s"
  "ws_close_calls (ws_close s) = ws_close_calls s + 1"
  by (simp_all add: ws_close_def total_close_requests_def)

text \<open>
  C5, as the code has it. The backend teardown is guarded by \<^verbatim>\<open>if (liveSessionPromise)\<close>
  and \<open>ws.close()\<close> is not guarded at all, so a disconnect is never an error and never
  sends an envelope, but it is a no-op in no state:
  \<^item> of two disconnects in a row, the second is exactly one more call of \<open>ws.close()\<close>:
    it requests no backend close and changes nothing else;
  \<^item> from connecting or active, the two together request the close of the backend session
    exactly once;
  \<^item> whenever the current promise is fulfilled, also after the backend has reported a close
    or an error, one disconnect requests the close of that session once;
  \<^item> without a current promise (idle, or after a disconnect), a disconnect is exactly one
    call of \<open>ws.close()\<close>.
\<close>

theorem disconnect_twice:
  "on_message sdk2 (Parsed Disconnect) (on_message sdk1 (Parsed Disconnect) s) =
     ws_close (on_message sdk1 (Parsed Disconnect) s)
   \<and> outbox (on_message sdk2 (Parsed Disconnect) (on_message sdk1 (Parsed Disconnect) s)) =
       outbox s
   \<and> ws_close_calls
         (on_message sdk2 (Parsed Disconnect) (on_message sdk1 (Parsed Disconnect) s)) =
       ws_close_calls s + 2
   \<and> total_close_requests
         (on_message sdk2 (Parsed Disconnect) (on_message sdk1 (Parsed Disconnect) s)) =
       total_close_requests (on_message sdk1 (Parsed Disconnect) s)
   \<and> (phase s = Connecting \<or> phase s = Active \<longrightarrow>
        total_close_requests
          (on_message sdk2 (Parsed Disconnect) (on_message sdk1 (Parsed Disconnect) s)) =
        total_close_requests s + 1)
   \<and> (liveSessionPromise s = Some p \<and> p < length (backends s)
        \<and> promise (backends s ! p) = Fulfilled \<longrightarrow>
        total_close_requests (on_message sdk1 (Parsed Disconnect) s) = total_close_requests s + 1
        \<and> close_calls (backends (on_message sdk1 (Parsed Disconnect) s) ! p) =
            close_calls (backends s ! p) + 1)
   \<and> (liveSessionPromise s = None \<longrightarrow> on_message sdk1 (Parsed Disconnect) s = ws_close s)"
proof -
  let ?d1 = "on_message sdk1 (Parsed Disconnect) s"
  have twice: "on_message sdk2 (Parsed Disconnect) ?d1 = ws_close ?d1"
    by (rule second_disconnect)
  have calls: "ws_close_calls ?d1 = ws_close_calls s + 1"
    by (simp add: on_message_def ws_close_def then_on_fields split: option.splits)
  have once: "total_close_requests ?d1 = total_close_requests s + 1"
    if ph: "phase s = Connecting \<or> phase s = Active"
  proof -
    from ph obtain q where q: "liveSessionPromise s = Some q" "q < length (backends s)"
      and np: "\<forall>e. promise (backends s ! q) \<noteq> Rejected e"
      by (auto simp: phase_def split: if_splits option.splits promise_state.splits)
    from np disconnect_total [OF q, of sdk1] show ?thesis
      by (simp split: promise_state.splits)
  qed
  have held: "total_close_requests ?d1 = total_close_requests s + 1
              \<and> close_calls (backends ?d1 ! p) = close_calls (backends s ! p) + 1"
    if h: "liveSessionPromise s = Some p \<and> p < length (backends s)
           \<and> promise (backends s ! p) = Fulfilled"
  proof -
    from h have q: "liveSessionPromise s = Some p" "p < length (backends s)"
      and f: "promise (backends s ! p) = Fulfilled"
      by simp_all
    from f disconnect_total [OF q, of sdk1]
    have t: "total_close_requests ?d1 = total_close_requests s + 1"
      by simp
    from q f have c: "close_calls (backends ?d1 ! p) = close_calls (backends s ! p) + 1"
      by (simp add: on_message_def ws_close_def then_on_def promise_then_def)
    from t c show ?thesis by simp
  qed
  have none: "?d1 = ws_close s" if "liveSessionPromise s = None"
    using that by (rule disconnect_without_promise)
  show ?thesis
    using twice calls once held none by (simp add: ws_close_fields disconnect_outbox)
qed

theorem disconnect_twice_witness:
  "phase (run [connect_key]) = Connecting
   \<and> total_close_requests (run [connect_key, disconnect, disconnect]) =
       total_close_requests (run [connect_key]) + 1
   \<and> outbox (run [connect_key, disconnect, disconnect]) = outbox (run [connect_key])
   \<and> map close_calls (backends (run [connect_key, disconnect, disconnect, BackendOpen 0])) = [1]
   \<and> promise (backends (run [connect_key, BackendOpen 0, BackendClose 0]) ! 0) = Fulfilled
   \<and> total_close_requests (run [connect_key, BackendOpen 0, BackendClose 0, disconnect]) =
       total_close_requests (run [connect_key, BackendOpen 0, BackendClose 0]) + 1
   \<and> on_message ConnectReturns (Parsed Disconnect) init = ws_close init"
proof -
  let ?c = "run [connect_key, BackendOpen 0, BackendClose 0]"
  have c: "phase (run [connect_key]) = Connecting"
    by (simp add: example_defs relay_defs phase_def)
  have r: "run [connect_key, disconnect, disconnect] =
           on_message ConnectReturns (Parsed Disconnect)
             (on_message ConnectReturns (Parsed Disconnect) (run [connect_key]))"
    "run [connect_key, BackendOpen 0, BackendClose 0, disconnect] =
           on_message ConnectReturns (Parsed Disconnect) ?c"
    by (simp_all add: run_def disconnect_def)
  have o: "map close_calls (backends (run [connect_key, disconnect, disconnect, BackendOpen 0]))
           = [1]"
    by (simp add: example_defs relay_defs)
  have f: "liveSessionPromise ?c = Some 0" "0 < length (backends ?c)"
    "promise (backends ?c ! 0) = Fulfilled"
    by (simp_all add: example_defs relay_defs)
  have i: "liveSessionPromise init = None"
    by (simp add: init_def)
  have w1: "total_close_requests (run [connect_key, disconnect, disconnect]) =
              total_close_requests (run [connect_key]) + 1
            \<and> outbox (run [connect_key, disconnect, disconnect]) = outbox (run [connect_key])"
    using disconnect_twice [of ConnectReturns ConnectReturns "run [connect_key]" 0] c
    by (simp add: r ws_close_fields disconnect_outbox)
  have w2: "total_close_requests (run [connect_key, BackendOpen 0, BackendClose 0, disconnect]) =
              total_close_requests ?c + 1"
    using disconnect_twice [of ConnectReturns ConnectReturns ?c 0] f
    by (simp add: r ws_close_fields)
  have w3: "on_message ConnectReturns (Parsed Disconnect) init = ws_close init"
    using disconnect_twice [of ConnectReturns ConnectReturns init 0] i
    by (simp add: ws_close_fields)
  show ?thesis
    using c o f(3) w1 w2 w3 by simp
qed

text \<open>
  The claim as the specification states it fails: a disconnect in a closed session is not a
  no-op. After the backend has closed the session on its own the session is closed, the
  promise is still held, and a disconnect calls \<open>close()\<close> on the backend session and
  \<open>ws.close()\<close> on the socket. After a disconnect the session is closed too, and a second
  disconnect calls \<open>ws.close()\<close> a second time.
\<close>

theorem disconnect_while_closed_counterexample:
  "phase (run [connect_key, BackendOpen 0, BackendClose 0]) = Closed
   \<and> total_close_requests (run [connect_key, BackendOpen 0, BackendClose 0]) = 0
   \<and> ws_close_calls (run [connect_key, BackendOpen 0, BackendClose 0]) = 0
   \<and> total_close_requests (run [connect_key, BackendOpen 0, BackendClose 0, disconnect]) = 1
   \<and> ws_close_calls (run [connect_key, BackendOpen 0, BackendClose 0, disconnect]) = 1
   \<and> phase (run [connect_key, disconnect]) = Closed
   \<and> ws_close_calls (run [connect_key, disconnect]) = 1
   \<and> ws_close_calls (run [connect_key, disconnect, disconnect]) = 2"
  by (simp add: example_defs relay_defs phase_def total_close_requests_def close_requests_def)

subsection \<open>C2: audio frames and the session promise\<close>

lemma queued_frames_append:
  "queued_frames (rs @ rs') = queued_frames rs @ queued_frames rs'"
proof (induction rs)
  case Nil
  then show ?case by simp
next
  case (Cons r rs)
  then show ?case by (cases r) simp_all
qed

lemma fold_apply_reaction_realtimeInput:
  "realtimeInput (fold apply_reaction rs b) = realtimeInput b @ queued_frames rs"
proof (induction rs arbitrary: b)
  case Nil
  then show ?case by simp
next
  case (Cons r rs)
  then show ?case by (cases r) simp_all
qed

lemma backend_open_hands_over:
  assumes "p < length (backends s)" and "promise (backends s ! p) = Pending rs"
  shows "realtimeInput (backends (backend_open p s) ! p) =
           realtimeInput (backends s ! p) @ queued_frames rs"
  using assms
  by (simp add: backend_open_def ws_send_def console_log_def fold_apply_reaction_realtimeInput)

lemma audio_input_queued:
  assumes "liveSessionPromise s = Some p" and "p < length (backends s)"
    and "promise (backends s ! p) = Pending rs"
  shows "promise (backends (on_message sdk (Parsed (AudioInput a m)) s) ! p) =
           Pending (rs @ [SendRealtimeInput a m])"
    and "realtimeInput (backends (on_message sdk (Parsed (AudioInput a m)) s) ! p) =
           realtimeInput (backends s ! p)"
    and "length (backends (on_message sdk (Parsed (AudioInput a m)) s)) = length (backends s)"
    and "forwarded (on_message sdk (Parsed (AudioInput a m)) s) = forwarded s"
  using assms
  by (simp_all add: on_message_def then_on_def forwarded_def promise_then_def map_update_same)

text \<open>
  C2, as the code has it. The gate is \<^verbatim>\<open>if (liveSessionPromise)\<close> and the frame is sent
  through \<^verbatim>\<open>liveSessionPromise.then(...)\<close>, so what happens to a frame depends on the
  promise alone, not on the state of the session:
  \<^item> without a current promise (before a connect that reaches the SDK, or after a
    disconnect) the connection stays as it was: nothing is forwarded and nothing waits;
  \<^item> while the promise is pending (connecting) nothing is forwarded at that moment; the
    frame waits in the promise, and when the backend session opens it receives every
    waiting frame in the order of arrival, this one last;
  \<^item> once the promise is fulfilled the frame is passed to \<open>sendRealtimeInput\<close> at once,
    also after the backend has reported a close or an error, which do not clear the promise;
  \<^item> when the promise is rejected the connection stays as it was.
\<close>

theorem audio_input_gate:
  "(liveSessionPromise s = None \<longrightarrow> on_message sdk (Parsed (AudioInput a m)) s = s)
   \<and> (liveSessionPromise s = Some p \<and> p < length (backends s)
        \<and> promise (backends s ! p) = Pending rs \<longrightarrow>
      forwarded (on_message sdk (Parsed (AudioInput a m)) s) = forwarded s
      \<and> promise (backends (on_message sdk (Parsed (AudioInput a m)) s) ! p)
          = Pending (rs @ [SendRealtimeInput a m])
      \<and> realtimeInput
           (backends (backend_open p (on_message sdk (Parsed (AudioInput a m)) s)) ! p)
          = realtimeInput (backends s ! p) @ queued_frames rs @ [(a, m)])
   \<and> (liveSessionPromise s = Some p \<and> p < length (backends s)
        \<and> promise (backends s ! p) = Fulfilled \<longrightarrow>
      realtimeInput (backends (on_message sdk (Parsed (AudioInput a m)) s) ! p)
          = realtimeInput (backends s ! p) @ [(a, m)])
   \<and> (liveSessionPromise s = Some p \<and> p < length (backends s)
        \<and> promise (backends s ! p) = Rejected e \<longrightarrow>
      on_message sdk (Parsed (AudioInput a m)) s = s)"
proof -
  let ?s' = "on_message sdk (Parsed (AudioInput a m)) s"
  have none: "?s' = s" if "liveSessionPromise s = None"
    using that by (simp add: on_message_def)
  have pending: "forwarded ?s' = forwarded s
      \<and> promise (backends ?s' ! p) = Pending (rs @ [SendRealtimeInput a m])
      \<and> realtimeInput (backends (backend_open p ?s') ! p)
          = realtimeInput (backends s ! p) @ queued_frames rs @ [(a, m)]"
    if h: "liveSessionPromise s = Some p \<and> p < length (backends s)
           \<and> promise (backends s ! p) = Pending rs"
  proof -
    from h have q: "liveSessionPromise s = Some p" "p < length (backends s)"
      "promise (backends s ! p) = Pending rs"
      by simp_all
    note a = audio_input_queued [OF q, of sdk a m]
    from a(3) q(2) have l: "p < length (backends ?s')"
      by simp
    from backend_open_hands_over [OF l a(1)] a(2)
    have "realtimeInput (backends (backend_open p ?s') ! p)
          = realtimeInput (backends s ! p) @ queued_frames rs @ [(a, m)]"
      by (simp add: queued_frames_append)
    with a(1) a(4) show ?thesis by simp
  qed
  have fulfilled: "realtimeInput (backends ?s' ! p) = realtimeInput (backends s ! p) @ [(a, m)]"
    if "liveSessionPromise s = Some p \<and> p < length (backends s)
        \<and> promise (backends s ! p) = Fulfilled"
    using that by (simp add: on_message_def then_on_def promise_then_def)
  have rejected: "?s' = s"
    if "liveSessionPromise s = Some p \<and> p < length (backends s)
        \<and> promise (backends s ! p) = Rejected e"
    using that by (simp add: on_message_def then_on_def promise_then_def)
  show ?thesis
    using none pending fulfilled rejected by blast
qed

theorem audio_input_gate_witness:
  "on_message ConnectReturns (Parsed (AudioInput (JStr ''def'') (JStr ''audio/pcm''))) init = init
   \<and> promise (backends (run [connect_key, audio_abc]) ! 0)
       = Pending [SendRealtimeInput (JStr ''abc'') (JStr ''audio/pcm'')]
   \<and> forwarded (run [connect_key, audio_abc, audio_def]) = forwarded (run [connect_key, audio_abc])
   \<and> realtimeInput (backends (run [connect_key, audio_abc, audio_def, BackendOpen 0]) ! 0)
       = [(JStr ''abc'', JStr ''audio/pcm''), (JStr ''def'', JStr ''audio/pcm'')]
   \<and> promise (backends (run [connect_key, BackendOpen 0]) ! 0) = Fulfilled
   \<and> realtimeInput (backends (run [connect_key, BackendOpen 0, audio_def]) ! 0)
       = [(JStr ''def'', JStr ''audio/pcm'')]
   \<and> promise (backends (run [connect_key, BackendReject 0 (Error ''refused'')]) ! 0)
       = Rejected (Error ''refused'')
   \<and> run [connect_key, BackendReject 0 (Error ''refused''), audio_def]
       = run [connect_key, BackendReject 0 (Error ''refused'')]"
proof -
  let ?msg = "Parsed (AudioInput (JStr ''def'') (JStr ''audio/pcm''))"
  let ?q = "run [connect_key, audio_abc]"
  let ?f = "run [connect_key, BackendOpen 0]"
  let ?r = "run [connect_key, BackendReject 0 (Error ''refused'')]"
  have i: "liveSessionPromise init = None"
    by (simp add: init_def)
  have q: "liveSessionPromise ?q = Some 0" "0 < length (backends ?q)"
    "promise (backends ?q ! 0) = Pending [SendRealtimeInput (JStr ''abc'') (JStr ''audio/pcm'')]"
    "realtimeInput (backends ?q ! 0) = []"
    by (simp_all add: example_defs relay_defs)
  have f: "liveSessionPromise ?f = Some 0" "0 < length (backends ?f)"
    "promise (backends ?f ! 0) = Fulfilled" "realtimeInput (backends ?f ! 0) = []"
    by (simp_all add: example_defs relay_defs)
  have r: "liveSessionPromise ?r = Some 0" "0 < length (backends ?r)"
    "promise (backends ?r ! 0) = Rejected (Error ''refused'')"
    by (simp_all add: example_defs relay_defs)
  have u: "run [connect_key, audio_abc, audio_def] = on_message ConnectReturns ?msg ?q"
    "run [connect_key, audio_abc, audio_def, BackendOpen 0] =
       backend_open 0 (on_message ConnectReturns ?msg ?q)"
    "run [connect_key, BackendOpen 0, audio_def] = on_message ConnectReturns ?msg ?f"
    "run [connect_key, BackendReject 0 (Error ''refused''), audio_def] =
       on_message ConnectReturns ?msg ?r"
    by (simp_all add: run_def audio_def_def)
  have w0: "on_message ConnectReturns ?msg init = init"
    using audio_input_gate [of init ConnectReturns "JStr ''def''" "JStr ''audio/pcm''"] i
    by simp
  have w1: "forwarded (on_message ConnectReturns ?msg ?q) = forwarded ?q
            \<and> realtimeInput (backends (backend_open 0 (on_message ConnectReturns ?msg ?q)) ! 0)
                = [(JStr ''abc'', JStr ''audio/pcm''), (JStr ''def'', JStr ''audio/pcm'')]"
    using audio_input_gate [of ?q ConnectReturns "JStr ''def''" "JStr ''audio/pcm''" 0
        "[SendRealtimeInput (JStr ''abc'') (JStr ''audio/pcm'')]"] q
    by simp
  have w2: "realtimeInput (backends (on_message ConnectReturns ?msg ?f) ! 0)
            = [(JStr ''def'', JStr ''audio/pcm'')]"
    using audio_input_gate [of ?f ConnectReturns "JStr ''def''" "JStr ''audio/pcm''" 0] f
    by simp
  have w3: "on_message ConnectReturns ?msg ?r = ?r"
    using audio_input_gate [of ?r ConnectReturns "JStr ''def''" "JStr ''audio/pcm''" 0 _
        "Error ''refused''"] r
    by simp
  show ?thesis
    using w0 w1 w2 w3 q(3) f(3) r(3) by (simp add: u)
qed

text \<open>
  The claim as the specification states it fails in three of the states it names. A frame
  that arrives while the session is connecting is handed to the backend session when that
  opens; a frame that arrives after the backend has closed the session, or has reported an
  error, is passed to that session at once.
\<close>

theorem audio_outside_active_counterexample:
  "phase (run [connect_key]) = Connecting
   \<and> forwarded (run [connect_key, audio_abc]) = []
   \<and> forwarded (run [connect_key, audio_abc, BackendOpen 0]) = [(JStr ''abc'', JStr ''audio/pcm'')]
   \<and> phase (run [connect_key, BackendOpen 0, BackendClose 0]) = Closed
   \<and> forwarded (run [connect_key, BackendOpen 0, BackendClose 0, audio_abc])
       = [(JStr ''abc'', JStr ''audio/pcm'')]
   \<and> phase (run [connect_key, BackendOpen 0, BackendError 0 (Error ''lost'')]) = Errored
   \<and> forwarded (run [connect_key, BackendOpen 0, BackendError 0 (Error ''lost''), audio_abc])
       = [(JStr ''abc'', JStr ''audio/pcm'')]"
  by (simp add: example_defs relay_defs phase_def forwarded_def)

subsection \<open>C1: the close event of the socket\<close>

text \<open>The handler of the close event touches neither the promise nor a backend session.\<close>

lemma on_close_keeps_backends:
  "backends (on_close s) = backends s \<and> liveSessionPromise (on_close s) = liveSessionPromise s
   \<and> outbox (on_close s) = outbox s"
  by (simp add: on_close_def console_log_def)

text \<open>
  C1 at a socket that closes while the session is connecting, the backend opening only
  afterwards. Nothing asks the backend session to close: once open it stays open, with no
  \<open>close()\<close> called or waiting, it is still the current promise of the connection, and
  \<open>connected\<close> is sent on the closed socket.
\<close>

theorem late_open_after_transport_close:
  "transport_closed (run [connect_key, WsClose, BackendOpen 0])
   \<and> outbox (run [connect_key, WsClose, BackendOpen 0]) = [Connected]
   \<and> liveSessionPromise (run [connect_key, WsClose, BackendOpen 0]) = Some 0
   \<and> promise (backends (run [connect_key, WsClose, BackendOpen 0]) ! 0) = Fulfilled
   \<and> close_requests (backends (run [connect_key, WsClose, BackendOpen 0]) ! 0) = 0
   \<and> map live (backends (run [connect_key, WsClose, BackendOpen 0])) = [True]"
  by (simp add: example_defs relay_defs live_def close_requests_def)

subsection \<open>C4: a second connect\<close>

text \<open>
  A connect that reaches the SDK appends a backend session and makes it the current
  promise; the sessions asked for before are left as they are.
\<close>

lemma connect_appends:
  assumes "truthy (cfg_apiKey (config_or_empty c))"
  shows "backends (on_message ConnectReturns (Parsed (Connect c)) s) =
           backends s @ [new_backend (cfg_apiKey (config_or_empty c))
                           (voice_of (cfg_voiceName (config_or_empty c)))
                           (userName_of (cfg_userName (config_or_empty c)))]
       \<and> liveSessionPromise (on_message ConnectReturns (Parsed (Connect c)) s) =
           Some (length (backends s))"
  using assms by (simp add: on_message_def Let_def)

text \<open>
  C4 at two connects in a row. The first backend session is not asked to close, before or
  after the second is created: both are live, and only the second is the current promise,
  so that a later disconnect closes the second and leaves the first open.
\<close>

theorem second_connect_keeps_first_backend:
  "liveSessionPromise (run [connect_key, connect_key]) = Some 1
   \<and> map close_requests (backends (run [connect_key, connect_key])) = [0, 0]
   \<and> map live (backends (run [connect_key, connect_key])) = [True, True]
   \<and> map live (backends (run [connect_key, connect_key, BackendOpen 0, BackendOpen 1,
                                 disconnect])) = [True, False]"
  by (simp add: example_defs relay_defs live_def close_requests_def)

end
